theory Spec2Isabelle
  imports Complex_Main "HOL-Library.Word"
begin

section \<open>VoiceWaveform.tsx: the visualisation renderer\<close>

text \<open>
  JavaScript numbers are modelled as follows. Array lengths, loop counters and bar
  counts are natural numbers; \<^verbatim>\<open>Math.floor(i * len / count)\<close> on such operands is
  the quotient \<open>(i * len) div count\<close> (the double division is exact enough below
  \<open>2 ^ 53\<close> never to reach the next integer). Lengths in pixels and amplitudes are
  reals.
\<close>

datatype size_class = Small | Medium | Large

datatype wave_mode = Bars | Circle | Line | Orb

record size_config =
  width :: nat
  height :: nat
  barCount :: nat

fun sizeConfig :: "size_class \<Rightarrow> size_config" where
  "sizeConfig Small = \<lparr>width = 60, height = 60, barCount = 12\<rparr>"
| "sizeConfig Medium = \<lparr>width = 100, height = 100, barCount = 20\<rparr>"
| "sizeConfig Large = \<lparr>width = 150, height = 150, barCount = 32\<rparr>"

text \<open>\<^verbatim>\<open>frequencyData?: Uint8Array | null\<close>: absent, or a sequence of bytes.\<close>

type_synonym frequency_data = "8 word list option"

text \<open>
  \<^verbatim>\<open>const dataIndex = frequencyData ? Math.floor(i * frequencyData.length / count) : i\<close>,
  the same expression in the modes circle, bars and line.
\<close>

definition dataIndex :: "frequency_data \<Rightarrow> nat \<Rightarrow> nat \<Rightarrow> nat" where
  "dataIndex frequencyData i count =
     (case frequencyData of
        Some fd \<Rightarrow> (i * length fd) div count
      | None \<Rightarrow> i)"

text \<open>
  Reading a typed array: \<^verbatim>\<open>frequencyData[k]\<close> is the byte at \<open>k\<close> when \<open>k\<close> is
  inside the array and \<^verbatim>\<open>undefined\<close> (here \<open>None\<close>) otherwise.
\<close>

definition readBin :: "8 word list \<Rightarrow> nat \<Rightarrow> 8 word option" where
  "readBin fd k = (if k < length fd then Some (fd ! k) else None)"

text \<open>
  The number of iterations of the drawing loop of each mode: \<^verbatim>\<open>config.barCount\<close> for
  circle and bars, the constant \<^verbatim>\<open>points = 64\<close> for line; the orb mode has no loop
  and reads no bin.
\<close>

definition points :: nat where
  "points = 64"

fun targetCount :: "wave_mode \<Rightarrow> size_class \<Rightarrow> nat" where
  "targetCount Circle sz = barCount (sizeConfig sz)"
| "targetCount Bars sz = barCount (sizeConfig sz)"
| "targetCount Line sz = points"
| "targetCount Orb sz = 0"

text \<open>The bins read by one call of \<^verbatim>\<open>drawWaveform\<close> when frequency data is present.\<close>

definition binReads :: "wave_mode \<Rightarrow> size_class \<Rightarrow> 8 word list \<Rightarrow> 8 word option list" where
  "binReads mode sz fd =
     map (\<lambda>i. readBin fd (dataIndex (Some fd) i (targetCount mode sz)))
       [0..<targetCount mode sz]"

text \<open>
  The orb mode:
  \<^verbatim>\<open>const baseRadius = Math.min(width, height) * 0.15;\<close>
  \<^verbatim>\<open>const pulseRadius = baseRadius + (audioLevel * 20);\<close>
\<close>

definition baseRadius :: "real \<Rightarrow> real \<Rightarrow> real" where
  "baseRadius w h = min w h * 0.15"

definition pulseRadius :: "real \<Rightarrow> real \<Rightarrow> real \<Rightarrow> real" where
  "pulseRadius w h audioLevel = baseRadius w h + (audioLevel * 20)"

section \<open>lib/api.ts: the REST client wrappers\<close>

text \<open>
  Every wrapper is an \<^verbatim>\<open>async\<close> function of one shape:
  \<^verbatim>\<open>try { const res = await fetch(...); if (!res.ok) throw new Error(...);\<close>
  \<^verbatim>\<open>      return res.json(); } catch (err) { console.error(...); return null; }\<close>
  The promise an \<^verbatim>\<open>async\<close> function returns is modelled by the way it settles.
  A request is identified by its method and endpoint; its headers, body and query
  string have no part in how a wrapper settles and are left out.
\<close>

datatype js_error = BodyNotJson

datatype 'a settled = Resolves 'a | Rejects js_error

text \<open>What a wrapper hands to its caller: \<^verbatim>\<open>null\<close>, \<^verbatim>\<open>[]\<close>, or the parsed body.\<close>

datatype 'a js_value = Null | EmptyArray | Parsed 'a

text \<open>
  What \<^verbatim>\<open>fetch\<close> does for one request: its promise rejects (the network failed), or
  it resolves with a response that has a status and a body. The body is given by what
  \<^verbatim>\<open>res.json()\<close> settles to: \<open>Some v\<close> when the body parses to \<open>v\<close>, \<open>None\<close> when
  that promise rejects (the body is not JSON, or the stream breaks).
\<close>

datatype 'a fetch_outcome = FetchRejects | FetchResponse nat "'a option"

datatype http_method = GET | POST | DELETE

datatype endpoint =
    Chat
  | VoiceSynthesize
  | VoiceInfo
  | VoiceAgentChat
  | SpeechToText
  | RecordingsSave
  | Recordings
  | RecordingsId string
  | ElevenLabsConfig
  | ElevenLabsSignedUrl

type_synonym 'a fetch = "http_method \<Rightarrow> endpoint \<Rightarrow> 'a fetch_outcome"

text \<open>\<^verbatim>\<open>res.ok\<close>: the status is in the range 200 to 299.\<close>

definition res_ok :: "nat \<Rightarrow> bool" where
  "res_ok status = (200 \<le> status \<and> status \<le> 299)"

text \<open>
  The body of the \<^verbatim>\<open>try\<close>/\<^verbatim>\<open>catch\<close> that all wrappers share, with the value the
  \<^verbatim>\<open>catch\<close> returns as a parameter. A rejection of the awaited \<^verbatim>\<open>fetch\<close> and the
  \<^verbatim>\<open>throw\<close> on \<^verbatim>\<open>!res.ok\<close> happen inside the \<^verbatim>\<open>try\<close> and reach the
  \<^verbatim>\<open>catch\<close>. \<^verbatim>\<open>return res.json()\<close> returns the promise without awaiting it: the
  function's own promise takes over the way that promise settles, after the
  \<^verbatim>\<open>try\<close> block has been left, so its rejection does not reach the \<^verbatim>\<open>catch\<close>.
\<close>

definition try_return_json :: "'a js_value \<Rightarrow> 'a fetch_outcome \<Rightarrow> 'a js_value settled" where
  "try_return_json caught outcome =
     (case outcome of
        FetchRejects \<Rightarrow> Resolves caught
      | FetchResponse status body \<Rightarrow>
          if \<not> res_ok status then Resolves caught
          else (case body of
                  Some v \<Rightarrow> Resolves (Parsed v)
                | None \<Rightarrow> Rejects BodyNotJson))"

record chat_options =
  enableVoice :: "bool option"
  enableNavigation :: "bool option"
  opt_userId :: "string option"

definition callChatAPI ::
  "'a fetch \<Rightarrow> string \<Rightarrow> string \<Rightarrow> chat_options option \<Rightarrow> 'a js_value settled" where
  "callChatAPI fetch message conversationId options = try_return_json Null (fetch POST Chat)"

definition synthesizeVoice :: "'a fetch \<Rightarrow> string \<Rightarrow> string \<Rightarrow> bool \<Rightarrow> 'a js_value settled" where
  "synthesizeVoice fetch txt agent returnBase64 = try_return_json Null (fetch POST VoiceSynthesize)"

definition getVoiceInfo :: "'a fetch \<Rightarrow> 'a js_value settled" where
  "getVoiceInfo fetch = try_return_json Null (fetch GET VoiceInfo)"

definition uploadAudio :: "'a fetch \<Rightarrow> 8 word list \<Rightarrow> 'a js_value settled" where
  "uploadAudio fetch audioBlob = try_return_json Null (fetch POST SpeechToText)"

record recording_metadata =
  md_conversationId :: "string option"
  md_userId :: "string option"
  md_transcript :: "string option"
  md_agentResponse :: "string option"
  md_duration :: "real option"
  md_confidenceScore :: "real option"
  md_language :: "string option"

definition saveRecording ::
  "'a fetch \<Rightarrow> 8 word list \<Rightarrow> recording_metadata \<Rightarrow> 'a js_value settled" where
  "saveRecording fetch audioBlob metadata = try_return_json Null (fetch POST RecordingsSave)"

definition listRecordings ::
  "'a fetch \<Rightarrow> string option \<Rightarrow> string option \<Rightarrow> nat option \<Rightarrow> 'a js_value settled" where
  "listRecordings fetch conversationId userId limit = try_return_json EmptyArray (fetch GET Recordings)"

definition getRecording :: "'a fetch \<Rightarrow> string \<Rightarrow> 'a js_value settled" where
  "getRecording fetch recordingId = try_return_json Null (fetch GET (RecordingsId recordingId))"

definition deleteRecording :: "'a fetch \<Rightarrow> string \<Rightarrow> 'a js_value settled" where
  "deleteRecording fetch recordingId = try_return_json Null (fetch DELETE (RecordingsId recordingId))"

definition getElevenLabsConfig :: "'a fetch \<Rightarrow> 'a js_value settled" where
  "getElevenLabsConfig fetch = try_return_json Null (fetch GET ElevenLabsConfig)"

definition getElevenLabsSignedUrl :: "'a fetch \<Rightarrow> string \<Rightarrow> 'a js_value settled" where
  "getElevenLabsSignedUrl fetch agentId = try_return_json Null (fetch GET ElevenLabsSignedUrl)"

section \<open>lib/hooks/useVoice.ts: capture and playback in the hook\<close>

datatype voice_mode = PushToTalk | Continuous | Disabled

datatype voice_state = Idle | Recording | Processing | Playing | Error

record voice_settings =
  mode :: voice_mode
  volume :: nat
  enableVoiceActivity :: bool
  selectedVoice :: string
  autoPlayResponses :: bool
  noiseSuppressionLevel :: real
  saveRecordings :: bool
  userId :: "string option"
  conversationId :: "string option"

text \<open>\<^verbatim>\<open>Partial<VoiceSettings>\<close>: each field present or not.\<close>

record settings_patch =
  p_mode :: "voice_mode option"
  p_volume :: "nat option"
  p_enableVoiceActivity :: "bool option"
  p_selectedVoice :: "string option"
  p_autoPlayResponses :: "bool option"
  p_noiseSuppressionLevel :: "real option"
  p_saveRecordings :: "bool option"
  p_userId :: "string option option"
  p_conversationId :: "string option option"

text \<open>\<^verbatim>\<open>audioData: string | Blob\<close>.\<close>

datatype audio_data = Base64 string | BlobData "8 word list"

text \<open>
  \<^verbatim>\<open>audio.src\<close>: empty, a \<^verbatim>\<open>data:audio/mp3;base64,...\<close> URL, or the object URL with
  the given number that \<^verbatim>\<open>URL.createObjectURL\<close> made.
\<close>

datatype media_src = NoSrc | DataUrl string | BlobUrl nat

text \<open>
  The \<^verbatim>\<open>HTMLAudioElement\<close> as far as the code uses it. For the element of the hook,
  \<open>onended\<close> is the handler \<^verbatim>\<open>playAudio\<close> installs, given by the one value its
  closure holds: whether \<^verbatim>\<open>typeof audioData === 'object'\<close>. \<open>onerror\<close> says whether
  the error handler is installed.
\<close>

record media_element =
  src :: media_src
  el_volume :: real
  currentTime :: real
  paused :: bool
  muted :: bool
  el_playbackRate :: real

record audio_element = media_element +
  onended :: "bool option"
  onerror :: bool

text \<open>A \<^verbatim>\<open>RecordRTC\<close> object: the stream it records, and whether it is recording.\<close>

record recorder =
  rec_stream :: nat
  rec_recording :: bool

text \<open>\<^verbatim>\<open>VoiceData\<close>, of which \<^verbatim>\<open>stopRecording\<close> fills \<^verbatim>\<open>audioBlob\<close> only.\<close>

record voice_data =
  audioBlob :: "8 word list"

text \<open>
  The state of one mounted hook: the \<^verbatim>\<open>useState\<close> values, the \<^verbatim>\<open>useRef\<close> cells,
  and the part of the browser the hook acts on. Streams, recorders, object URLs and
  animation frames are numbered from the counter \<open>nextId\<close>. \<open>liveTracks\<close> holds the
  microphone streams whose tracks have not been stopped (the microphone is in use
  while it is not empty); \<open>objectUrls\<close> holds the object URLs created and not
  revoked; \<open>saveCalls\<close> lists the calls of \<^verbatim>\<open>saveRecording\<close>. The speech recognition
  reference is left out.
\<close>

record voice_hook =
  voiceState :: voice_state
  voiceEnabled :: bool
  audioLevel :: real
  error :: "string option"
  isClient :: bool
  settings :: voice_settings
  mediaRecorderRef :: "nat option"
  audioContextRef :: bool
  analyzerRef :: bool
  audioElementRef :: "audio_element option"
  streamRef :: "nat option"
  animationFrameRef :: "nat option"
  recordingStartTimeRef :: "nat option"
  recorders :: "nat \<rightharpoonup> recorder"
  liveTracks :: "nat set"
  objectUrls :: "nat set"
  saveCalls :: "(8 word list \<times> recording_metadata) list"
  nextId :: nat

definition initialSettings :: voice_settings where
  "initialSettings =
     \<lparr>mode = PushToTalk, volume = 80, enableVoiceActivity = True,
      selectedVoice = ''Rachel'', autoPlayResponses = True,
      noiseSuppressionLevel = 0.7, saveRecordings = True,
      userId = None, conversationId = None\<rparr>"

definition initialHook :: voice_hook where
  "initialHook =
     \<lparr>voiceState = Idle, voiceEnabled = False, audioLevel = 0, error = None,
      isClient = False, settings = initialSettings, mediaRecorderRef = None,
      audioContextRef = False, analyzerRef = False, audioElementRef = None,
      streamRef = None, animationFrameRef = None, recordingStartTimeRef = None,
      recorders = Map.empty, liveTracks = {}, objectUrls = {}, saveCalls = [],
      nextId = 0\<rparr>"

text \<open>The mount effect: \<^verbatim>\<open>useEffect(() => { setIsClient(true); }, [])\<close>.\<close>

definition mounted :: voice_hook where
  "mounted = initialHook\<lparr>isClient := True\<rparr>"

text \<open>
  What the browser does during one call of \<^verbatim>\<open>startRecording\<close>: whether
  \<^verbatim>\<open>window\<close> and \<^verbatim>\<open>navigator.mediaDevices\<close> exist, how the construction of the
  audio context goes, whether \<^verbatim>\<open>getUserMedia\<close> resolves, whether connecting the
  stream to the analyser, the dynamic import of \<^verbatim>\<open>recordrtc\<close>, the constructor and
  the recorder's \<^verbatim>\<open>startRecording\<close> succeed, the value of \<^verbatim>\<open>Date.now()\<close>, and the
  analyser's frame of byte magnitudes (\<^verbatim>\<open>frequencyBinCount\<close> of them, 128 for the
  \<^verbatim>\<open>fftSize\<close> of 256).
\<close>

datatype audio_context_outcome = NoAudioContextClass | ConstructorThrows | CreateAnalyserThrows | Constructed

record start_env =
  hasWindow :: bool
  mediaDevices :: bool
  audioContext :: audio_context_outcome
  getUserMedia :: bool
  createSource :: bool
  importRecordRTC :: bool
  newRecordRTC :: bool
  recorderStarts :: bool
  now :: nat
  analyserFrame :: "8 word list"

definition initializeAudioContext :: "start_env \<Rightarrow> voice_hook \<Rightarrow> voice_hook" where
  "initializeAudioContext env s =
     (if \<not> hasWindow env then s
      else if audioContextRef s then s
      else (case audioContext env of
              NoAudioContextClass \<Rightarrow> s
            | ConstructorThrows \<Rightarrow> s\<lparr>error := Some ''Audio not supported in this browser''\<rparr>
            | CreateAnalyserThrows \<Rightarrow>
                s\<lparr>audioContextRef := True, error := Some ''Audio not supported in this browser''\<rparr>
            | Constructed \<Rightarrow> s\<lparr>audioContextRef := True, analyzerRef := True\<rparr>))"

text \<open>
  \<^verbatim>\<open>dataArray.reduce((a, b) => a + b) / dataArray.length\<close>, then \<^verbatim>\<open>average / 255\<close>.
\<close>

definition averageLevel :: "8 word list \<Rightarrow> real" where
  "averageLevel dataArray = (real (sum_list (map unat dataArray)) / real (length dataArray)) / 255"

text \<open>
  \<^verbatim>\<open>monitorAudioLevel\<close>, up to the first call of \<^verbatim>\<open>updateLevel\<close>. Its closure reads the
  \<^verbatim>\<open>voiceState\<close> of the render that created it (the dependency list is
  \<^verbatim>\<open>[voiceState]\<close>), which is passed here as \<open>rendered\<close>.
\<close>

definition monitorAudioLevel :: "voice_state \<Rightarrow> start_env \<Rightarrow> voice_hook \<Rightarrow> voice_hook" where
  "monitorAudioLevel rendered env s =
     (if \<not> analyzerRef s then s
      else if rendered = Recording
      then s\<lparr>audioLevel := averageLevel (analyserFrame env),
             animationFrameRef := Some (nextId s), nextId := Suc (nextId s)\<rparr>
      else s)"

text \<open>The \<^verbatim>\<open>catch\<close> block of \<^verbatim>\<open>startRecording\<close>.\<close>

definition startRecording_catch :: "voice_hook \<Rightarrow> voice_hook" where
  "startRecording_catch s =
     s\<lparr>error := Some ''Microphone access denied or not available'', voiceState := Error\<rparr>"

definition startRecording :: "start_env \<Rightarrow> voice_hook \<Rightarrow> voice_hook" where
  "startRecording env s =
     (if \<not> isClient s \<or> \<not> hasWindow env \<or> \<not> mediaDevices env
      then s\<lparr>error := Some ''Recording not supported in this environment''\<rparr>
      else
        let s1 = initializeAudioContext env (s\<lparr>error := None, voiceState := Recording\<rparr>) in
        if \<not> getUserMedia env then startRecording_catch s1
        else
          let stream = nextId s1;
              s2 = s1\<lparr>streamRef := Some stream,
                      liveTracks := insert stream (liveTracks s1),
                      nextId := Suc stream\<rparr>
          in
          if audioContextRef s2 \<and> analyzerRef s2 \<and> \<not> createSource env then startRecording_catch s2
          else if \<not> importRecordRTC env then startRecording_catch s2
          else if \<not> newRecordRTC env then startRecording_catch s2
          else
            let r = nextId s2;
                s3 = s2\<lparr>mediaRecorderRef := Some r,
                        recorders := (recorders s2)(r \<mapsto> \<lparr>rec_stream = stream, rec_recording = False\<rparr>),
                        nextId := Suc r\<rparr>
            in
            if \<not> recorderStarts env then startRecording_catch s3
            else
              monitorAudioLevel (voiceState s) env
                (s3\<lparr>recorders := (recorders s3)(r \<mapsto> \<lparr>rec_stream = stream, rec_recording = True\<rparr>),
                    recordingStartTimeRef := Some (now env)\<rparr>))"

text \<open>
  What the browser and \<^verbatim>\<open>RecordRTC\<close> do during one call of \<^verbatim>\<open>stopRecording\<close>: the
  result of \<^verbatim>\<open>getBlob()\<close> and the value of \<^verbatim>\<open>Date.now()\<close>. The recorder is taken
  to invoke the callback it is given.
\<close>

record stop_env =
  getBlob :: "8 word list option"
  endTime :: nat

text \<open>
  \<^verbatim>\<open>recordingStartTimeRef.current ? (endTime - recordingStartTimeRef.current) / 1000 : undefined\<close>;
  a start time of 0 is falsy.
\<close>

definition recordingDuration :: "nat option \<Rightarrow> nat \<Rightarrow> real option" where
  "recordingDuration startTime endT =
     (case startTime of
        None \<Rightarrow> None
      | Some t \<Rightarrow> if t = 0 then None else Some ((real endT - real t) / 1000))"

text \<open>
  \<^verbatim>\<open>stopRecording\<close> is memoised with an empty dependency list, so the \<^verbatim>\<open>settings\<close> its
  closure reads are those of the first render, \<open>initialSettings\<close>. The awaited
  \<^verbatim>\<open>saveRecording\<close> is inside a \<^verbatim>\<open>try\<close>: however it settles, the blob is returned.
  \<^verbatim>\<open>mediaRecorderRef\<close> is not reset. The animation frame is cancelled and its
  reference cleared under \<^verbatim>\<open>if (animationFrameRef.current)\<close>, for which the
  identifier 0 is falsy.
\<close>

definition stopRecording :: "stop_env \<Rightarrow> voice_hook \<Rightarrow> voice_data option \<times> voice_hook" where
  "stopRecording env s =
     (case mediaRecorderRef s of
        None \<Rightarrow> (None, s)
      | Some r \<Rightarrow>
          let s1 = s\<lparr>voiceState := Processing,
                    recorders := (case recorders s r of
                                    None \<Rightarrow> recorders s
                                  | Some rc \<Rightarrow> (recorders s)(r \<mapsto> rc\<lparr>rec_recording := False\<rparr>))\<rparr>;
              duration = recordingDuration (recordingStartTimeRef s1) (endTime env);
              s2 = (case streamRef s1 of
                      None \<Rightarrow> s1
                    | Some stream \<Rightarrow>
                        s1\<lparr>liveTracks := liveTracks s1 - {stream}, streamRef := None\<rparr>);
              s3 = s2\<lparr>animationFrameRef :=
                        (case animationFrameRef s2 of
                           None \<Rightarrow> None
                         | Some frame \<Rightarrow> if frame = 0 then Some frame else None),
                      recordingStartTimeRef := None,
                      audioLevel := 0, voiceState := Idle\<rparr>
          in
          (case getBlob env of
             None \<Rightarrow> (None, s3)
           | Some blob \<Rightarrow>
               (Some \<lparr>audioBlob = blob\<rparr>,
                if saveRecordings initialSettings
                then s3\<lparr>saveCalls := saveCalls s3 @
                          [(blob,
                            \<lparr>md_conversationId = conversationId initialSettings,
                             md_userId = userId initialSettings,
                             md_transcript = None, md_agentResponse = None,
                             md_duration = duration, md_confidenceScore = None,
                             md_language = Some ''en-US''\<rparr>)]\<rparr>
                else s3)))"

text \<open>
  The media element, after the HTML standard. \<^verbatim>\<open>new Audio()\<close> has no source, volume 1,
  position 0 and is paused. Assigning \<^verbatim>\<open>src\<close> runs the load algorithm, which pauses
  the element and resets its position. \<^verbatim>\<open>pause()\<close> on a paused element does
  nothing.
\<close>

definition newAudio :: audio_element where
  "newAudio = \<lparr>src = NoSrc, el_volume = 1, currentTime = 0, paused = True,
               muted = False, el_playbackRate = 1, onended = None, onerror = False\<rparr>"

definition setSrc :: "media_src \<Rightarrow> 'a media_element_scheme \<Rightarrow> 'a media_element_scheme" where
  "setSrc url a = a\<lparr>src := url, currentTime := 0, paused := True\<rparr>"

definition pause :: "'a media_element_scheme \<Rightarrow> 'a media_element_scheme" where
  "pause a = (if paused a then a else a\<lparr>paused := True\<rparr>)"

text \<open>\<^verbatim>\<open>URL.revokeObjectURL(url)\<close>: only an object URL is registered.\<close>

definition revokeObjectURL :: "media_src \<Rightarrow> voice_hook \<Rightarrow> voice_hook" where
  "revokeObjectURL url s =
     (case url of
        BlobUrl u \<Rightarrow> s\<lparr>objectUrls := objectUrls s - {u}\<rparr>
      | _ \<Rightarrow> s)"

record play_env =
  play_hasWindow :: bool
  playResolves :: bool

text \<open>The \<^verbatim>\<open>catch\<close> block of \<^verbatim>\<open>playAudio\<close>.\<close>

definition playAudio_catch :: "voice_hook \<Rightarrow> voice_hook" where
  "playAudio_catch s = s\<lparr>error := Some ''Audio playback failed'', voiceState := Error\<rparr>"

text \<open>
  \<^verbatim>\<open>playAudio\<close>. The element is created once and reused. Assigning a volume outside
  \<open>[0, 1]\<close> throws, which is the case when the setting is above 100.
\<close>

definition playAudio :: "play_env \<Rightarrow> audio_data \<Rightarrow> voice_hook \<Rightarrow> voice_hook" where
  "playAudio env audioData s =
     (if \<not> isClient s \<or> \<not> play_hasWindow env then s
      else
        let s1 = s\<lparr>voiceState := Playing, error := None\<rparr>;
            audio = (case audioElementRef s1 of None \<Rightarrow> newAudio | Some a \<Rightarrow> a);
            s2 = (case audioData of
                    Base64 d \<Rightarrow> s1\<lparr>audioElementRef := Some (setSrc (DataUrl d) audio)\<rparr>
                  | BlobData b \<Rightarrow>
                      s1\<lparr>audioElementRef := Some (setSrc (BlobUrl (nextId s1)) audio),
                         objectUrls := insert (nextId s1) (objectUrls s1),
                         nextId := Suc (nextId s1)\<rparr>);
            audio2 = (case audioElementRef s2 of None \<Rightarrow> audio | Some a \<Rightarrow> a)
        in
        if 100 < volume (settings s) then playAudio_catch s2
        else
          let audio3 = audio2\<lparr>el_volume := real (volume (settings s)) / 100,
                             onended := Some (case audioData of Base64 d \<Rightarrow> False | BlobData b \<Rightarrow> True),
                             onerror := True\<rparr>
          in
          if playResolves env
          then s2\<lparr>audioElementRef := Some (audio3\<lparr>paused := False\<rparr>)\<rparr>
          else playAudio_catch (s2\<lparr>audioElementRef := Some audio3\<rparr>))"

text \<open>
  The element reports the end of playback: it is paused, and the handler that
  \<^verbatim>\<open>playAudio\<close> installed runs. The handler revokes \<^verbatim>\<open>audio.src\<close>, the source the
  element has when the event arrives.
\<close>

definition audioEnded :: "voice_hook \<Rightarrow> voice_hook" where
  "audioEnded s =
     (case audioElementRef s of
        None \<Rightarrow> s
      | Some a \<Rightarrow>
          let s1 = s\<lparr>audioElementRef := Some (a\<lparr>paused := True\<rparr>)\<rparr> in
          (case onended a of
             None \<Rightarrow> s1
           | Some isObject \<Rightarrow>
               let s2 = s1\<lparr>voiceState := Idle\<rparr> in
               if isObject then revokeObjectURL (src a) s2 else s2))"

text \<open>The element reports an error: the \<^verbatim>\<open>onerror\<close> handler runs.\<close>

definition audioError :: "voice_hook \<Rightarrow> voice_hook" where
  "audioError s =
     (case audioElementRef s of
        None \<Rightarrow> s
      | Some a \<Rightarrow>
          if onerror a then s\<lparr>error := Some ''Failed to play audio'', voiceState := Error\<rparr>
          else s)"

definition stopPlayback :: "voice_hook \<Rightarrow> voice_hook" where
  "stopPlayback s =
     (case audioElementRef s of
        None \<Rightarrow> s
      | Some a \<Rightarrow>
          s\<lparr>audioElementRef := Some ((pause a)\<lparr>currentTime := 0\<rparr>), voiceState := Idle\<rparr>)"

text \<open>\<^verbatim>\<open>setSettings(prev => ({ ...prev, ...newSettings }))\<close>.\<close>

definition mergeSettings :: "voice_settings \<Rightarrow> settings_patch \<Rightarrow> voice_settings" where
  "mergeSettings prev newSettings =
     \<lparr>mode = (case p_mode newSettings of None \<Rightarrow> mode prev | Some v \<Rightarrow> v),
      volume = (case p_volume newSettings of None \<Rightarrow> volume prev | Some v \<Rightarrow> v),
      enableVoiceActivity =
        (case p_enableVoiceActivity newSettings of None \<Rightarrow> enableVoiceActivity prev | Some v \<Rightarrow> v),
      selectedVoice =
        (case p_selectedVoice newSettings of None \<Rightarrow> selectedVoice prev | Some v \<Rightarrow> v),
      autoPlayResponses =
        (case p_autoPlayResponses newSettings of None \<Rightarrow> autoPlayResponses prev | Some v \<Rightarrow> v),
      noiseSuppressionLevel =
        (case p_noiseSuppressionLevel newSettings of None \<Rightarrow> noiseSuppressionLevel prev | Some v \<Rightarrow> v),
      saveRecordings =
        (case p_saveRecordings newSettings of None \<Rightarrow> saveRecordings prev | Some v \<Rightarrow> v),
      userId = (case p_userId newSettings of None \<Rightarrow> userId prev | Some v \<Rightarrow> v),
      conversationId =
        (case p_conversationId newSettings of None \<Rightarrow> conversationId prev | Some v \<Rightarrow> v)\<rparr>"

definition updateSettings :: "settings_patch \<Rightarrow> voice_hook \<Rightarrow> voice_hook" where
  "updateSettings newSettings s = s\<lparr>settings := mergeSettings (settings s) newSettings\<rparr>"

text \<open>A patch that sets the volume and nothing else: \<^verbatim>\<open>{ volume: v }\<close>.\<close>

definition volumePatch :: "nat \<Rightarrow> settings_patch" where
  "volumePatch v =
     \<lparr>p_mode = None, p_volume = Some v, p_enableVoiceActivity = None,
      p_selectedVoice = None, p_autoPlayResponses = None,
      p_noiseSuppressionLevel = None, p_saveRecordings = None,
      p_userId = None, p_conversationId = None\<rparr>"

text \<open>
  The cleanup of the unmount effect: the tracks of \<^verbatim>\<open>streamRef\<close> are stopped and
  the element is paused. Cancelling the animation frame and closing the audio context
  leave the references as they are.
\<close>

definition unmount :: "voice_hook \<Rightarrow> voice_hook" where
  "unmount s =
     (let s1 = (case streamRef s of
                  None \<Rightarrow> s
                | Some stream \<Rightarrow> s\<lparr>liveTracks := liveTracks s - {stream}\<rparr>)
      in case audioElementRef s1 of
           None \<Rightarrow> s1
         | Some a \<Rightarrow> s1\<lparr>audioElementRef := Some (pause a)\<rparr>)"

section \<open>VoiceMicrophone.tsx: the handlers of the microphone control\<close>

text \<open>
  \<^verbatim>\<open>isRecording\<close> is \<^verbatim>\<open>voiceState === 'recording'\<close>. The handlers get the
  \<^verbatim>\<open>disabled\<close> property; what they pass to \<^verbatim>\<open>onAudioRecorded\<close> is returned.
\<close>

definition isRecording :: "voice_hook \<Rightarrow> bool" where
  "isRecording s = (voiceState s = Recording)"


definition handleMouseUp :: "stop_env \<Rightarrow> voice_hook \<Rightarrow> 8 word list option \<times> voice_hook" where
  "handleMouseUp env s =
     (if mode (settings s) = PushToTalk \<and> isRecording s
      then (case stopRecording env s of
              (None, s') \<Rightarrow> (None, s')
            | (Some voiceData, s') \<Rightarrow> (Some (audioBlob voiceData), s'))
      else (None, s))"



section \<open>VoicePlayback.tsx: the player\<close>

text \<open>
  The component's state and its element. The listeners the component adds are:
  \<^verbatim>\<open>timeupdate\<close> sets \<^verbatim>\<open>currentTime\<close> to the element's position, \<^verbatim>\<open>pause\<close> clears
  \<^verbatim>\<open>internalPlaying\<close>, \<^verbatim>\<open>play\<close> sets it. A \<^verbatim>\<open>pause()\<close> that pauses a playing
  element fires \<^verbatim>\<open>timeupdate\<close> and \<^verbatim>\<open>pause\<close>; on a paused element it fires nothing.
  The callbacks \<^verbatim>\<open>onPlay\<close>, \<^verbatim>\<open>onPause\<close>, \<^verbatim>\<open>onStop\<close> of the parent are returned
  as a list of notifications.
\<close>

record playback_state =
  internalPlaying :: bool
  pb_duration :: real
  pb_currentTime :: real
  pb_volume :: nat
  isMuted :: bool
  isLoading :: bool
  pb_error :: "string option"
  playbackRate :: real
  audioRef :: "media_element option"

datatype media_event = TimeUpdate | PauseEvent | PlayEvent

datatype parent_callback = OnPlay | OnPause | OnStop

definition pauseEvents :: "'a media_element_scheme \<Rightarrow> media_event list" where
  "pauseEvents a = (if paused a then [] else [TimeUpdate, PauseEvent])"

fun listener :: "media_event \<Rightarrow> playback_state \<Rightarrow> playback_state" where
  "listener TimeUpdate s =
     (case audioRef s of None \<Rightarrow> s | Some a \<Rightarrow> s\<lparr>pb_currentTime := currentTime a\<rparr>)"
| "listener PauseEvent s = s\<lparr>internalPlaying := False\<rparr>"
| "listener PlayEvent s = s\<lparr>internalPlaying := True\<rparr>"

definition dispatch :: "media_event list \<Rightarrow> playback_state \<Rightarrow> playback_state" where
  "dispatch events s = fold listener events s"

definition handlePause :: "playback_state \<Rightarrow> playback_state \<times> parent_callback list" where
  "handlePause s =
     (case audioRef s of
        None \<Rightarrow> (s, [])
      | Some a \<Rightarrow> (dispatch (pauseEvents a) (s\<lparr>audioRef := Some (pause a)\<rparr>), [OnPause]))"

definition handleStop :: "playback_state \<Rightarrow> playback_state \<times> parent_callback list" where
  "handleStop s =
     (case audioRef s of
        None \<Rightarrow> (s, [])
      | Some a \<Rightarrow>
          (dispatch (pauseEvents a)
             (s\<lparr>audioRef := Some ((pause a)\<lparr>currentTime := 0\<rparr>), pb_currentTime := 0\<rparr>),
           [OnStop]))"

text \<open>
  \<^verbatim>\<open>handleVolumeChange\<close>: the state first, then the element at once. The assignment
  throws for a value above 100 and leaves the element as it is.
\<close>

definition handleVolumeChange :: "nat \<Rightarrow> playback_state \<Rightarrow> playback_state" where
  "handleVolumeChange newVolume s =
     (let s1 = s\<lparr>pb_volume := newVolume\<rparr> in
      case audioRef s1 of
        None \<Rightarrow> s1
      | Some a \<Rightarrow>
          if 100 < newVolume then s1
          else s1\<lparr>audioRef := Some (a\<lparr>el_volume := real newVolume / 100\<rparr>)\<rparr>)"

text \<open>Playback is paused: an element is loaded and it is paused.\<close>

definition playbackPaused :: "playback_state \<Rightarrow> bool" where
  "playbackPaused s = (case audioRef s of None \<Rightarrow> False | Some a \<Rightarrow> paused a)"

section \<open>The voice turn: HybridVoiceAgent.tsx, Chat.tsx and page.tsx\<close>

text \<open>
  The bodies of the two responses a voice turn reads, and JavaScript's truthiness of
  an optional string: \<^verbatim>\<open>undefined\<close> and the empty string are falsy.
\<close>

record transcription_data =
  transcript :: "string option"

record agent_data =
  success :: bool
  current_agent :: string
  conversation_id :: string
  audio_base64 :: "string option"
  ad_message :: "string option"

definition truthy :: "string option \<Rightarrow> bool" where
  "truthy v = (case v of None \<Rightarrow> False | Some t \<Rightarrow> t \<noteq> [])"

text \<open>
  \<^verbatim>\<open>interface VoiceState\<close> of \<^verbatim>\<open>HybridVoiceAgent\<close>, with the component's audio element.
  The component has no state enumeration: it shows an error while \<open>hv_error\<close> is
  set, and is idle when the three flags are false.
\<close>

record hybrid_state =
  hv_isRecording :: bool
  isProcessing :: bool
  isPlaying :: bool
  currentAgent :: string
  hv_volume :: nat
  hv_error :: "string option"
  hv_conversationId :: "string option"
  hv_audio :: "audio_element option"

datatype hybrid_callback = OnMessage agent_data | OnAgentChange string | OnError

text \<open>
  One run of \<^verbatim>\<open>processVoiceMessage\<close> meets the outcome of the request to
  \<^verbatim>\<open>/speech-to-text\<close>, of the request to \<^verbatim>\<open>/voice/agent-chat\<close>, and of
  \<^verbatim>\<open>audio.play()\<close>. The result is the state, the endpoints requested in order, and
  the callbacks of the parent invoked in order.
\<close>

record turn_env =
  transcription :: "transcription_data fetch_outcome"
  agentChat :: "agent_data fetch_outcome"
  responsePlays :: bool

type_synonym turn_result = "hybrid_state \<times> endpoint list \<times> hybrid_callback list"

definition playAudioResponse :: "bool \<Rightarrow> string \<Rightarrow> hybrid_state \<Rightarrow> hybrid_state" where
  "playAudioResponse plays audioBase64 s =
     (let s1 = s\<lparr>isPlaying := True\<rparr>;
          audio = setSrc (DataUrl audioBase64)
                    (case hv_audio s1 of None \<Rightarrow> newAudio | Some a \<Rightarrow> a)
      in
      if 100 < hv_volume s
      then s1\<lparr>hv_audio := Some audio, hv_error := Some ''Audio playback failed'', isPlaying := False\<rparr>
      else
        let audio2 = audio\<lparr>el_volume := real (hv_volume s) / 100, onended := Some False, onerror := True\<rparr>
        in
        if plays then s1\<lparr>hv_audio := Some (audio2\<lparr>paused := False\<rparr>)\<rparr>
        else s1\<lparr>hv_audio := Some audio2, hv_error := Some ''Audio playback failed'', isPlaying := False\<rparr>)"

text \<open>The \<^verbatim>\<open>catch\<close> block of \<^verbatim>\<open>processVoiceMessage\<close>.\<close>

definition processVoiceMessage_catch :: "endpoint list \<Rightarrow> hybrid_callback list \<Rightarrow> hybrid_state \<Rightarrow> turn_result" where
  "processVoiceMessage_catch requested called s =
     (s\<lparr>hv_error := Some ''Failed to process voice message'', isProcessing := False\<rparr>,
      requested, called @ [OnError])"

definition processVoiceMessage :: "turn_env \<Rightarrow> 8 word list \<Rightarrow> hybrid_state \<Rightarrow> turn_result" where
  "processVoiceMessage env blob s =
     (case transcription env of
        FetchRejects \<Rightarrow> processVoiceMessage_catch [SpeechToText] [] s
      | FetchResponse status body \<Rightarrow>
          if \<not> res_ok status then processVoiceMessage_catch [SpeechToText] [] s
          else (case body of
                  None \<Rightarrow> processVoiceMessage_catch [SpeechToText] [] s
                | Some transcriptionData \<Rightarrow>
                    if \<not> truthy (transcript transcriptionData)
                    then processVoiceMessage_catch [SpeechToText] [] s
                    else (case agentChat env of
                            FetchRejects \<Rightarrow>
                              processVoiceMessage_catch [SpeechToText, VoiceAgentChat] [] s
                          | FetchResponse agentStatus agentBody \<Rightarrow>
                              (case agentBody of
                                 None \<Rightarrow> processVoiceMessage_catch [SpeechToText, VoiceAgentChat] [] s
                               | Some agentData \<Rightarrow>
                                   if success agentData
                                   then
                                     let s1 = s\<lparr>currentAgent := current_agent agentData,
                                               hv_conversationId := Some (conversation_id agentData),
                                               isProcessing := False\<rparr>;
                                         called = OnMessage agentData #
                                           (if current_agent agentData \<noteq> currentAgent s
                                            then [OnAgentChange (current_agent agentData)] else [])
                                     in
                                     (case audio_base64 agentData of
                                        None \<Rightarrow> (s1, [SpeechToText, VoiceAgentChat], called)
                                      | Some a \<Rightarrow>
                                          if a = [] then (s1, [SpeechToText, VoiceAgentChat], called)
                                          else (playAudioResponse (responsePlays env) a s1,
                                                [SpeechToText, VoiceAgentChat], called))
                                   else processVoiceMessage_catch [SpeechToText, VoiceAgentChat] [] s))))"

text \<open>
  \<^verbatim>\<open>handleVoiceRecording\<close> of \<^verbatim>\<open>Chat\<close>: the blob goes to \<^verbatim>\<open>onVoiceMessage\<close> when the
  parent gave one; otherwise it is transcribed and a truthy transcript is sent as a
  message. \<^verbatim>\<open>handleVoiceUpload\<close> of the page is that second branch, sending
  through \<^verbatim>\<open>handleSendMessage\<close>, which requests \<^verbatim>\<open>/chat\<close>. Neither touches the state
  of the hook. The result lists what is forwarded or sent.
\<close>

datatype chat_action = ForwardBlob "8 word list" | SendMessage string

definition sendTranscript :: "transcription_data js_value settled \<Rightarrow> chat_action list" where
  "sendTranscript response =
     (case response of
        Rejects e \<Rightarrow> []
      | Resolves Null \<Rightarrow> []
      | Resolves EmptyArray \<Rightarrow> []
      | Resolves (Parsed d) \<Rightarrow>
          (case transcript d of None \<Rightarrow> [] | Some t \<Rightarrow> if t = [] then [] else [SendMessage t]))"

definition handleVoiceRecording ::
  "bool \<Rightarrow> transcription_data fetch \<Rightarrow> 8 word list \<Rightarrow> chat_action list" where
  "handleVoiceRecording hasOnVoiceMessage fetch blob =
     (if hasOnVoiceMessage then [ForwardBlob blob]
      else sendTranscript (uploadAudio fetch blob))"

definition handleVoiceUpload :: "transcription_data fetch \<Rightarrow> 8 word list \<Rightarrow> chat_action list" where
  "handleVoiceUpload fetch blob = sendTranscript (uploadAudio fetch blob)"

text \<open>The initial state of \<^verbatim>\<open>HybridVoiceAgent\<close>, for a given \<^verbatim>\<open>conversationId\<close> property.\<close>

definition initialHybrid :: "string option \<Rightarrow> hybrid_state" where
  "initialHybrid cid =
     \<lparr>hv_isRecording = False, isProcessing = False, isPlaying = False,
      currentAgent = ''Triage Agent'', hv_volume = 80, hv_error = None,
      hv_conversationId = (if truthy cid then cid else None), hv_audio = None\<rparr>"

text \<open>\<^verbatim>\<open>stopRecording\<close> of \<^verbatim>\<open>HybridVoiceAgent\<close>, with a recorder present.\<close>

definition hybridStopRecording :: "hybrid_state \<Rightarrow> hybrid_state" where
  "hybridStopRecording s =
     (if hv_isRecording s then s\<lparr>hv_isRecording := False, isProcessing := True\<rparr> else s)"

section \<open>Scenarios\<close>

text \<open>
  A browser in which every step of \<^verbatim>\<open>startRecording\<close> succeeds, one in which only the
  dynamic import of \<^verbatim>\<open>recordrtc\<close> fails, and the hook after one successful
  \<^verbatim>\<open>startRecording\<close> from the mounted state.
\<close>

definition browserOk :: start_env where
  "browserOk =
     \<lparr>hasWindow = True, mediaDevices = True, audioContext = Constructed,
      getUserMedia = True, createSource = True, importRecordRTC = True,
      newRecordRTC = True, recorderStarts = True, now = 1000,
      analyserFrame = replicate 128 102\<rparr>"

definition importFails :: start_env where
  "importFails = browserOk\<lparr>importRecordRTC := False\<rparr>"

definition recordingHook :: voice_hook where
  "recordingHook = startRecording browserOk mounted"

definition stopOk :: stop_env where
  "stopOk = \<lparr>getBlob = Some [82, 73, 70, 70], endTime = 3000\<rparr>"

text \<open>A browser in which \<^verbatim>\<open>audio.play()\<close> resolves, and the hook playing a response.\<close>

definition playOk :: play_env where
  "playOk = \<lparr>play_hasWindow = True, playResolves = True\<rparr>"

definition playingHook :: voice_hook where
  "playingHook = playAudio playOk (Base64 ''SUQz'') mounted"

text \<open>Two recordings played one after the other, the second before the first ended.\<close>

definition firstBlobPlaying :: voice_hook where
  "firstBlobPlaying = playAudio playOk (BlobData [1, 2]) mounted"

definition secondBlobPlaying :: voice_hook where
  "secondBlobPlaying = playAudio playOk (BlobData [3, 4]) firstBlobPlaying"

text \<open>
  A voice turn whose transcription succeeds with \<^verbatim>\<open>{transcript: ""}\<close>, met by a
  \<^verbatim>\<open>HybridVoiceAgent\<close> that has just stopped recording.
\<close>

definition emptyTranscript :: turn_env where
  "emptyTranscript =
     \<lparr>transcription = FetchResponse 200 (Some \<lparr>transcript = Some ''''\<rparr>),
      agentChat = FetchResponse 200
        (Some \<lparr>success = True, current_agent = ''Triage Agent'', conversation_id = ''c1'',
               audio_base64 = None, ad_message = None\<rparr>),
      responsePlays = True\<rparr>"

definition processingHybrid :: hybrid_state where
  "processingHybrid = hybridStopRecording ((initialHybrid None)\<lparr>hv_isRecording := True\<rparr>)"

text \<open>A player with a loaded element that is playing.\<close>

definition playingPlayback :: playback_state where
  "playingPlayback =
     \<lparr>internalPlaying = True, pb_duration = 12, pb_currentTime = 3, pb_volume = 80,
      isMuted = False, isLoading = False, pb_error = None, playbackRate = 1,
      audioRef = Some \<lparr>src = DataUrl ''SUQz'', el_volume = 0.8, currentTime = 3.5,
                        paused = False, muted = False, el_playbackRate = 1\<rparr>\<rparr>"

section \<open>Properties of the renderer\<close>

lemma dataIndex_less:
  assumes "i < count"
    and "0 < length fd"
  shows "dataIndex (Some fd) i count < length fd"
proof -
  from assms have "i * length fd < count * length fd"
    by simp
  then have "(i * length fd) div count < length fd"
    by (simp add: less_mult_imp_div_less mult.commute)
  then show ?thesis
    by (simp add: dataIndex_def)
qed

text \<open>
  Claim C3. For a frequency-bin array of length \<open>B \<ge> 1\<close> and a target count
  \<open>N \<ge> 1\<close>, the index \<open>floor (i * B / N)\<close> computed for every \<open>i < N\<close> lies in
  \<open>[0, B)\<close>; hence in each of the four rendering modes and each size class every bin
  read of \<^verbatim>\<open>drawWaveform\<close> finds a byte (none is out of range).
\<close>

theorem dataIndex_in_bounds:
  assumes "1 \<le> length fd"
    and "1 \<le> N"
  shows "(\<forall>i<N. dataIndex (Some fd) i N < length fd)
       \<and> (\<forall>m sz. None \<notin> set (binReads m sz fd))"
proof
  from assms(1) have pos: "0 < length fd"
    by (cases fd) simp_all
  show "\<forall>i<N. dataIndex (Some fd) i N < length fd"
    using dataIndex_less [OF _ pos] by blast
next
  show "\<forall>m sz. None \<notin> set (binReads m sz fd)"
  proof (intro allI notI)
    fix m sz
    assume "None \<in> set (binReads m sz fd)"
    then obtain i where i: "i < targetCount m sz"
      and none: "readBin fd (dataIndex (Some fd) i (targetCount m sz)) = None"
      by (auto simp: binReads_def)
    from assms(1) have "0 < length fd"
      by (cases fd) simp_all
    with i have "dataIndex (Some fd) i (targetCount m sz) < length fd"
      by (rule dataIndex_less)
    with none show False
      by (simp add: readBin_def)
  qed
qed

theorem dataIndex_in_bounds_witness:
  "1 \<le> length [1, 2, 3 :: 8 word] \<and> (1::nat) \<le> 4
   \<and> dataIndex (Some [1, 2, 3 :: 8 word]) 3 4 < length [1, 2, 3 :: 8 word]
   \<and> None \<notin> set (binReads Line Large [1, 2, 3 :: 8 word])"
proof -
  have h1: "1 \<le> length [1, 2, 3 :: 8 word]"
    by simp
  have h2: "(1::nat) \<le> 4"
    by simp
  from dataIndex_in_bounds [OF h1 h2]
  have a: "\<forall>i<4. dataIndex (Some [1, 2, 3 :: 8 word]) i 4 < length [1, 2, 3 :: 8 word]"
    and b: "\<forall>m sz. None \<notin> set (binReads m sz [1, 2, 3 :: 8 word])"
    by blast+
  have "(3::nat) < 4"
    by simp
  with a have "dataIndex (Some [1, 2, 3 :: 8 word]) 3 4 < length [1, 2, 3 :: 8 word]"
    by blast
  with b h1 h2 show ?thesis
    by blast
qed

text \<open>
  Claim C7. For amplitudes in \<open>[0, 1]\<close> the orb's radius is non-decreasing in the
  amplitude and never below the base radius.
\<close>

theorem pulseRadius_monotone_above_base:
  assumes "0 \<le> a"
    and "a \<le> b"
    and "b \<le> 1"
  shows "pulseRadius w h a \<le> pulseRadius w h b \<and> baseRadius w h \<le> pulseRadius w h a"
  using assms by (simp add: pulseRadius_def)

theorem pulseRadius_monotone_above_base_witness:
  "(0::real) \<le> 1 / 4 \<and> (1 / 4 :: real) \<le> 1 / 2 \<and> (1 / 2 :: real) \<le> 1
   \<and> pulseRadius 100 100 (1 / 4) \<le> pulseRadius 100 100 (1 / 2)
   \<and> baseRadius 100 100 \<le> pulseRadius 100 100 (1 / 4)"
  using pulseRadius_monotone_above_base [of "1 / 4" "1 / 2" 100 100] by simp

text \<open>
  The same holds when every arithmetic result is rounded, as double arithmetic does,
  by any monotone rounding that keeps 0 and the base radius (itself a rounded value).
\<close>

lemma pulseRadius_rounded:
  fixes rnd :: "real \<Rightarrow> real"
  assumes "mono rnd"
    and "rnd 0 = 0"
    and "rnd (baseRadius w h) = baseRadius w h"
    and "0 \<le> a"
    and "a \<le> b"
  shows "rnd (baseRadius w h + rnd (a * 20)) \<le> rnd (baseRadius w h + rnd (b * 20))"
    and "baseRadius w h \<le> rnd (baseRadius w h + rnd (a * 20))"
proof -
  from assms(1,5) have "rnd (a * 20) \<le> rnd (b * 20)"
    by (simp add: monoD)
  with assms(1) show "rnd (baseRadius w h + rnd (a * 20)) \<le> rnd (baseRadius w h + rnd (b * 20))"
    by (simp add: monoD)
  from assms(1,4) have "rnd 0 \<le> rnd (a * 20)"
    by (simp add: monoD)
  with assms(2) have "baseRadius w h \<le> baseRadius w h + rnd (a * 20)"
    by simp
  with assms(1) have "rnd (baseRadius w h) \<le> rnd (baseRadius w h + rnd (a * 20))"
    by (rule monoD)
  with assms(3) show "baseRadius w h \<le> rnd (baseRadius w h + rnd (a * 20))"
    by simp
qed

section \<open>Properties of the REST client wrappers\<close>

lemma try_return_json_caught:
  "try_return_json caught FetchRejects = Resolves caught"
  "\<not> res_ok status \<Longrightarrow> try_return_json caught (FetchResponse status body) = Resolves caught"
  by (simp_all add: try_return_json_def)

lemma try_return_json_parsed:
  "res_ok status \<Longrightarrow> try_return_json caught (FetchResponse status (Some v)) = Resolves (Parsed v)"
  by (simp add: try_return_json_def)

lemma try_return_json_rejects:
  "res_ok status \<Longrightarrow> try_return_json caught (FetchResponse status None) = Rejects BodyNotJson"
  by (simp add: try_return_json_def)

text \<open>
  When \<^verbatim>\<open>fetch\<close> rejects or the status is not 2xx, each wrapper resolves with
  \<^verbatim>\<open>null\<close>, and \<^verbatim>\<open>listRecordings\<close> with \<^verbatim>\<open>[]\<close>.
\<close>

lemma wrappers_resolve_on_failed_request:
  assumes "\<forall>m e. fetch m e = FetchRejects \<or> (\<exists>status body. fetch m e = FetchResponse status body \<and> \<not> res_ok status)"
  shows "callChatAPI fetch message cid options = Resolves Null"
    and "synthesizeVoice fetch txt agent b = Resolves Null"
    and "getVoiceInfo fetch = Resolves Null"
    and "uploadAudio fetch blob = Resolves Null"
    and "saveRecording fetch blob metadata = Resolves Null"
    and "listRecordings fetch c u l = Resolves EmptyArray"
    and "getRecording fetch rid = Resolves Null"
    and "deleteRecording fetch rid = Resolves Null"
    and "getElevenLabsConfig fetch = Resolves Null"
    and "getElevenLabsSignedUrl fetch aid = Resolves Null"
proof -
  have "try_return_json caught (fetch m e) = Resolves caught" for caught m e
    using assms by (metis try_return_json_caught)
  then show "callChatAPI fetch message cid options = Resolves Null"
    and "synthesizeVoice fetch txt agent b = Resolves Null"
    and "getVoiceInfo fetch = Resolves Null"
    and "uploadAudio fetch blob = Resolves Null"
    and "saveRecording fetch blob metadata = Resolves Null"
    and "listRecordings fetch c u l = Resolves EmptyArray"
    and "getRecording fetch rid = Resolves Null"
    and "deleteRecording fetch rid = Resolves Null"
    and "getElevenLabsConfig fetch = Resolves Null"
    and "getElevenLabsSignedUrl fetch aid = Resolves Null"
    by (simp_all add: callChatAPI_def synthesizeVoice_def getVoiceInfo_def uploadAudio_def
        saveRecording_def listRecordings_def getRecording_def deleteRecording_def
        getElevenLabsConfig_def getElevenLabsSignedUrl_def)
qed

text \<open>
  Claim C10. The wrappers are meant never to throw to their caller. At a response with
  status 200 whose body is not JSON, \<^verbatim>\<open>callChatAPI\<close> rejects, and so does
  \<^verbatim>\<open>listRecordings\<close>; at a response with status 204, which has no body,
  \<^verbatim>\<open>deleteRecording\<close> rejects: the promise of \<^verbatim>\<open>res.json()\<close> is returned
  without \<^verbatim>\<open>await\<close>, so its rejection passes the \<^verbatim>\<open>catch\<close>.
\<close>

theorem callChatAPI_rejects_on_unparsable_body:
  "callChatAPI (\<lambda>m e. FetchResponse 200 (None :: string option)) ''hello'' ''c1'' None
     = Rejects BodyNotJson
   \<and> listRecordings (\<lambda>m e. FetchResponse 200 (None :: string option)) None None None
     = Rejects BodyNotJson
   \<and> deleteRecording (\<lambda>m e. FetchResponse 204 (None :: string option)) ''r1''
     = Rejects BodyNotJson"
  by (simp add: callChatAPI_def listRecordings_def deleteRecording_def try_return_json_def
      res_ok_def)

section \<open>Properties of the capture engine\<close>

lemmas start_defs =
  startRecording_def startRecording_catch_def initializeAudioContext_def
  monitorAudioLevel_def Let_def

lemmas scenario_start_defs =
  browserOk_def importFails_def recordingHook_def mounted_def initialHook_def



text \<open>
  Claim C5. Every error path of the capture flow should release the microphone. When
  \<^verbatim>\<open>getUserMedia\<close> resolves and the import of \<^verbatim>\<open>recordrtc\<close> then fails,
  \<^verbatim>\<open>startRecording\<close> ends in the error state with the acquired stream still
  referenced and its tracks live, and a following \<^verbatim>\<open>stopRecording\<close> returns
  \<^verbatim>\<open>null\<close> without touching it, since no recorder exists.
\<close>

theorem startRecording_error_keeps_stream_live:
  "voiceState (startRecording importFails mounted) = Error
   \<and> error (startRecording importFails mounted) = Some ''Microphone access denied or not available''
   \<and> streamRef (startRecording importFails mounted) = Some 0
   \<and> liveTracks (startRecording importFails mounted) = {0}
   \<and> stopRecording stopOk (startRecording importFails mounted)
       = (None, startRecording importFails mounted)"
proof -
  have m: "mediaRecorderRef (startRecording importFails mounted) = None"
    by (simp add: start_defs scenario_start_defs)
  have "stopRecording stopOk (startRecording importFails mounted)
       = (None, startRecording importFails mounted)"
    using m by (simp add: stopRecording_def)
  moreover have "voiceState (startRecording importFails mounted) = Error"
    by (simp add: start_defs scenario_start_defs)
  moreover have "error (startRecording importFails mounted)
       = Some ''Microphone access denied or not available''"
    by (simp add: start_defs scenario_start_defs)
  moreover have "streamRef (startRecording importFails mounted) = Some 0"
    by (simp add: start_defs scenario_start_defs)
  moreover have "liveTracks (startRecording importFails mounted) = {0}"
    by (simp add: start_defs scenario_start_defs)
  ultimately show ?thesis
    by simp
qed

theorem startRecording_error_keeps_stream_live_witness:
  "voiceState (startRecording importFails mounted) = Error
   \<and> liveTracks (startRecording importFails mounted) \<noteq> {}
   \<and> fst (stopRecording stopOk (startRecording importFails mounted)) = None
   \<and> liveTracks (snd (stopRecording stopOk (startRecording importFails mounted))) \<noteq> {}"
  using startRecording_error_keeps_stream_live by simp

text \<open>The release that the error path lacks is done by \<^verbatim>\<open>stopRecording\<close> once a recorder exists.\<close>

lemma stopRecording_releases_stream:
  assumes "mediaRecorderRef s = Some r"
    and "streamRef s = Some stream"
  shows "stream \<notin> liveTracks (snd (stopRecording env s))"
    and "streamRef (snd (stopRecording env s)) = None"
    and "voiceState (snd (stopRecording env s)) = Idle"
  using assms by (simp_all add: stopRecording_def Let_def split: option.splits)







section \<open>Properties of playback in the hook\<close>

lemmas play_defs =
  playAudio_def playAudio_catch_def setSrc_def newAudio_def Let_def

lemmas scenario_play_defs =
  playOk_def playingHook_def firstBlobPlaying_def secondBlobPlaying_def mounted_def
  initialHook_def initialSettings_def

text \<open>
  When a recording is played to its end, the handler revokes the object URL that
  \<^verbatim>\<open>playAudio\<close> made for it.
\<close>

lemma audioEnded_revokes_played_blob:
  assumes "isClient s" "play_hasWindow env" "playResolves env" "volume (settings s) \<le> 100"
  shows "objectUrls (audioEnded (playAudio env (BlobData b) s)) = objectUrls s - {nextId s}"
  using assms
  by (simp add: play_defs audioEnded_def revokeObjectURL_def split: option.splits)

text \<open>
  Claim C4. Every object URL should be revoked when its payload is discarded. When a
  second recording is loaded while the first is playing, the element's source becomes
  the second URL and the first URL stays registered: the end of playback revokes the
  second only, and \<^verbatim>\<open>stopPlayback\<close> revokes none.
\<close>

theorem playAudio_replacement_keeps_first_object_url:
  "objectUrls firstBlobPlaying = {0}
   \<and> map_option src (audioElementRef secondBlobPlaying) = Some (BlobUrl 1)
   \<and> objectUrls secondBlobPlaying = {0, 1}
   \<and> objectUrls (audioEnded secondBlobPlaying) = {0}
   \<and> map_option src (audioElementRef (audioEnded secondBlobPlaying)) = Some (BlobUrl 1)
   \<and> objectUrls (stopPlayback secondBlobPlaying) = {0, 1}"
proof -
  have "objectUrls firstBlobPlaying = {0}"
    by (simp add: play_defs scenario_play_defs)
  moreover have "map_option src (audioElementRef secondBlobPlaying) = Some (BlobUrl 1)"
    by (simp add: play_defs scenario_play_defs)
  moreover have "objectUrls secondBlobPlaying = {0, 1}"
    by (auto simp add: play_defs scenario_play_defs)
  moreover have "objectUrls (audioEnded secondBlobPlaying) = {0}"
    by (auto simp add: play_defs scenario_play_defs audioEnded_def revokeObjectURL_def)
  moreover have "map_option src (audioElementRef (audioEnded secondBlobPlaying)) = Some (BlobUrl 1)"
    by (simp add: play_defs scenario_play_defs audioEnded_def revokeObjectURL_def)
  moreover have "objectUrls (stopPlayback secondBlobPlaying) = {0, 1}"
    by (auto simp add: play_defs scenario_play_defs stopPlayback_def)
  ultimately show ?thesis
    by simp
qed

theorem playAudio_replacement_keeps_first_object_url_witness:
  "0 \<in> objectUrls (audioEnded secondBlobPlaying)
   \<and> map_option src (audioElementRef (audioEnded secondBlobPlaying)) \<noteq> Some (BlobUrl 0)"
proof -
  from playAudio_replacement_keeps_first_object_url
  have a: "objectUrls (audioEnded secondBlobPlaying) = {0}"
    and b: "map_option src (audioElementRef (audioEnded secondBlobPlaying)) = Some (BlobUrl 1)"
    by blast+
  from a have "0 \<in> objectUrls (audioEnded secondBlobPlaying)"
    by simp
  moreover
  have "map_option src (audioElementRef (audioEnded secondBlobPlaying)) \<noteq> Some (BlobUrl 0)"
    unfolding b by simp
  ultimately show ?thesis
    by blast
qed

text \<open>
  Claim C6, as the code has it. \<^verbatim>\<open>updateSettings\<close> changes the stored settings only:
  the audio element (its volume, its position, whether it is paused) and the voice
  state are as before, and playback is not restarted. The new volume divided by 100
  becomes the element's volume at the next \<^verbatim>\<open>playAudio\<close>.
\<close>

theorem updateSettings_volume_applied_at_next_play:
  "audioElementRef (updateSettings p s) = audioElementRef s
   \<and> voiceState (updateSettings p s) = voiceState s
   \<and> volume (settings (updateSettings (volumePatch v) s)) = v
   \<and> (isClient s \<and> play_hasWindow env \<and> playResolves env \<and> v \<le> 100 \<longrightarrow>
        map_option el_volume
          (audioElementRef (playAudio env d (updateSettings (volumePatch v) s)))
        = Some (real v / 100))"
proof -
  have "audioElementRef (updateSettings p s) = audioElementRef s"
    and "voiceState (updateSettings p s) = voiceState s"
    by (simp_all add: updateSettings_def)
  moreover have v: "volume (settings (updateSettings (volumePatch v) s)) = v"
    by (simp add: updateSettings_def mergeSettings_def volumePatch_def)
  moreover have "isClient s \<and> play_hasWindow env \<and> playResolves env \<and> v \<le> 100 \<longrightarrow>
        map_option el_volume
          (audioElementRef (playAudio env d (updateSettings (volumePatch v) s)))
        = Some (real v / 100)"
  proof (intro impI)
    assume a: "isClient s \<and> play_hasWindow env \<and> playResolves env \<and> v \<le> 100"
    then have "isClient (updateSettings (volumePatch v) s)"
      by (simp add: updateSettings_def)
    with a v show "map_option el_volume
          (audioElementRef (playAudio env d (updateSettings (volumePatch v) s)))
        = Some (real v / 100)"
      by (cases d) (simp_all add: play_defs split: option.splits)
  qed
  ultimately show ?thesis
    by simp
qed

theorem updateSettings_volume_applied_at_next_play_witness:
  "audioElementRef (updateSettings (volumePatch 30) playingHook) = audioElementRef playingHook
   \<and> voiceState (updateSettings (volumePatch 30) playingHook) = voiceState playingHook
   \<and> volume (settings (updateSettings (volumePatch 30) playingHook)) = 30
   \<and> map_option el_volume
        (audioElementRef (playAudio playOk (Base64 ''SUQz'') (updateSettings (volumePatch 30) playingHook)))
      = Some (real 30 / 100)"
proof -
  have "isClient playingHook \<and> play_hasWindow playOk \<and> playResolves playOk \<and> (30::nat) \<le> 100"
    by (simp add: play_defs scenario_play_defs)
  with updateSettings_volume_applied_at_next_play
         [of "volumePatch 30" playingHook 30 playOk "Base64 ''SUQz''"]
  show ?thesis
    by blast
qed

text \<open>
  The claim as stated fails while a response plays at the setting 80: after the volume
  is set to 30 the element still has the volume 0.8.
\<close>

theorem updateSettings_volume_counterexample:
  "voiceState playingHook = Playing
   \<and> map_option el_volume (audioElementRef playingHook) = Some (80 / 100)
   \<and> volume (settings (updateSettings (volumePatch 30) playingHook)) = 30
   \<and> map_option el_volume (audioElementRef (updateSettings (volumePatch 30) playingHook))
       = Some (80 / 100)
   \<and> (80 / 100 :: real) \<noteq> 30 / 100"
  by (simp add: play_defs scenario_play_defs updateSettings_def mergeSettings_def volumePatch_def)

section \<open>Properties of the voice turn\<close>

text \<open>
  Claim C2, as the code has it. When transcription succeeds with an empty transcript,
  no request goes to the chat or agent endpoint. In \<^verbatim>\<open>Chat\<close> and the page nothing is
  sent and nothing else happens. \<^verbatim>\<open>processVoiceMessage\<close> of \<^verbatim>\<open>HybridVoiceAgent\<close>
  treats the empty transcript as a failure: it requests \<^verbatim>\<open>/speech-to-text\<close> only,
  ends processing, sets the error \<^verbatim>\<open>'Failed to process voice message'\<close> and calls
  \<^verbatim>\<open>onError\<close>.
\<close>

theorem empty_transcript_sends_nothing:
  assumes "res_ok status"
    and "\<not> truthy (transcript d)"
  shows "(transcription env = FetchResponse status (Some d) \<longrightarrow>
            processVoiceMessage env blob s
            = (s\<lparr>hv_error := Some ''Failed to process voice message'', isProcessing := False\<rparr>,
               [SpeechToText], [OnError]))
       \<and> (fetch POST SpeechToText = FetchResponse status (Some d) \<longrightarrow>
            handleVoiceRecording False fetch blob = [] \<and> handleVoiceUpload fetch blob = [])"
proof (intro conjI impI)
  assume "transcription env = FetchResponse status (Some d)"
  with assms show "processVoiceMessage env blob s
            = (s\<lparr>hv_error := Some ''Failed to process voice message'', isProcessing := False\<rparr>,
               [SpeechToText], [OnError])"
    by (simp add: processVoiceMessage_def processVoiceMessage_catch_def)
next
  assume f: "fetch POST SpeechToText = FetchResponse status (Some d)"
  with assms(1) have u: "uploadAudio fetch blob = Resolves (Parsed d)"
    by (simp add: uploadAudio_def try_return_json_def)
  from assms(2) have e: "sendTranscript (Resolves (Parsed d)) = []"
    by (simp add: sendTranscript_def truthy_def split: option.splits)
  from u e show "handleVoiceRecording False fetch blob = []"
    by (simp add: handleVoiceRecording_def)
  from u e show "handleVoiceUpload fetch blob = []"
    by (simp add: handleVoiceUpload_def)
qed

theorem empty_transcript_sends_nothing_witness:
  "res_ok 200 \<and> \<not> truthy (transcript \<lparr>transcript = Some []\<rparr>)
   \<and> processVoiceMessage emptyTranscript [82, 73] processingHybrid
      = (processingHybrid\<lparr>hv_error := Some ''Failed to process voice message'',
                           isProcessing := False\<rparr>,
         [SpeechToText], [OnError])
   \<and> handleVoiceRecording False (\<lambda>m e. FetchResponse 200 (Some \<lparr>transcript = Some []\<rparr>)) [82, 73] = []
   \<and> handleVoiceUpload (\<lambda>m e. FetchResponse 200 (Some \<lparr>transcript = Some []\<rparr>)) [82, 73] = []"
proof -
  have h1: "res_ok 200"
    by (simp add: res_ok_def)
  have h2: "\<not> truthy (transcript \<lparr>transcript = Some []\<rparr>)"
    by (simp add: truthy_def)
  have t: "transcription emptyTranscript = FetchResponse 200 (Some \<lparr>transcript = Some []\<rparr>)"
    by (simp add: emptyTranscript_def)
  from empty_transcript_sends_nothing
         [OF h1 h2, of emptyTranscript "[82, 73]" processingHybrid
            "\<lambda>m e. FetchResponse 200 (Some \<lparr>transcript = Some []\<rparr>)"]
       h1 h2 t
  show ?thesis
    by simp
qed

text \<open>
  The claim as stated fails in \<^verbatim>\<open>HybridVoiceAgent\<close>: after the empty transcript the
  component shows an error.
\<close>

theorem empty_transcript_hybrid_counterexample:
  "transcription emptyTranscript = FetchResponse 200 (Some \<lparr>transcript = Some []\<rparr>)
   \<and> hv_error processingHybrid = None
   \<and> hv_error (fst (processVoiceMessage emptyTranscript [82, 73] processingHybrid))
       = Some ''Failed to process voice message''
   \<and> snd (processVoiceMessage emptyTranscript [82, 73] processingHybrid)
       = ([SpeechToText], [OnError])"
  by (simp add: processVoiceMessage_def processVoiceMessage_catch_def emptyTranscript_def
      processingHybrid_def hybridStopRecording_def initialHybrid_def res_ok_def truthy_def)

section \<open>Properties of the player\<close>

lemma handlePause_pauses:
  assumes "audioRef s \<noteq> None"
  shows "playbackPaused (fst (handlePause s))"
  using assms
  by (auto simp add: handlePause_def playbackPaused_def dispatch_def pauseEvents_def pause_def)

text \<open>
  Claim C9. Pausing a player that is already paused leaves its whole state (position,
  playing flag, element and all else) as it is, and it stays paused; the handler
  has no failing branch. The parent's \<^verbatim>\<open>onPause\<close> is notified as at every call.
\<close>

theorem handlePause_idempotent:
  assumes "playbackPaused s"
  shows "handlePause s = (s, [OnPause]) \<and> playbackPaused (fst (handlePause s))"
proof -
  from assms obtain a where a: "audioRef s = Some a" and p: "paused a"
    by (auto simp add: playbackPaused_def split: option.splits)
  from p have "pause a = a" and "pauseEvents a = []"
    by (simp_all add: pause_def pauseEvents_def)
  moreover from a have "s\<lparr>audioRef := Some a\<rparr> = s"
    by simp
  ultimately have "handlePause s = (s, [OnPause])"
    using a by (simp add: handlePause_def dispatch_def)
  with assms show ?thesis
    by simp
qed

theorem handlePause_idempotent_witness:
  "playbackPaused (fst (handlePause playingPlayback))
   \<and> handlePause (fst (handlePause playingPlayback))
      = (fst (handlePause playingPlayback), [OnPause])"
proof -
  have "audioRef playingPlayback \<noteq> None"
    by (simp add: playingPlayback_def)
  then have h: "playbackPaused (fst (handlePause playingPlayback))"
    by (rule handlePause_pauses)
  from handlePause_idempotent [OF h] h show ?thesis
    by simp
qed

end
